theory Spec2Isabelle
  imports Complex_Main
begin

section \<open>Python values and dictionaries\<close>

text \<open>
  The job records, the progress events of the extraction engine and the JSON bodies of
  the requests are untyped dictionaries. Their values are modelled by \<open>pyval\<close>: \<open>None\<close>,
  a number (Python's \<open>int\<close> and \<open>float\<close> together, each by its value as a real:
  the arithmetic on them is Python's, see \<open>py_lib\<close> below) or a string. Booleans,
  lists and nested objects, which a JSON body can hold too, and the floats that are not
  finite (\<open>inf\<close>, \<open>nan\<close>) are left out.
\<close>

datatype pyval = PyNone | PyNum real | PyStr string

text \<open>Python's truth value of an object, as \<open>if x\<close>, \<open>not x\<close> and \<open>x or y\<close> use it.\<close>

fun truthy :: "pyval \<Rightarrow> bool" where
  "truthy PyNone = False"
| "truthy (PyNum x) = (x \<noteq> 0)"
| "truthy (PyStr s) = (s \<noteq> [])"

datatype py_error =
  KeyError | TypeError | OSError | OverflowError | UnicodeEncodeError | AttributeError
  | ValueError

type_synonym pydict = "string \<rightharpoonup> pyval"

text \<open>\<open>d.get(k)\<close>: the value, \<open>None\<close> for a missing key.\<close>

definition dict_get :: "pydict \<Rightarrow> string \<Rightarrow> pyval" where
  "dict_get d k = (case d k of None \<Rightarrow> PyNone | Some v \<Rightarrow> v)"

text \<open>\<open>d.get(k, dflt)\<close>: the value, \<open>dflt\<close> for a missing key (a key that is present
  with the value \<open>None\<close> yields \<open>None\<close>).\<close>

definition dict_get_default :: "pydict \<Rightarrow> string \<Rightarrow> pyval \<Rightarrow> pyval" where
  "dict_get_default d k dflt = (case d k of None \<Rightarrow> dflt | Some v \<Rightarrow> v)"

text \<open>\<open>x or y\<close>: \<open>x\<close> when it is true, \<open>y\<close> otherwise.\<close>

definition py_or :: "pyval \<Rightarrow> pyval \<Rightarrow> pyval" where
  "py_or x y = (if truthy x then x else y)"

text \<open>
  Library functions the code calls and that are taken as parameters:
  \<^item> the MD5 hex digest of \<open>hashlib\<close>, of a byte string;
  \<^item> \<open>str.encode()\<close>, the UTF-8 bytes of a text, \<open>None\<close> where it raises
    \<open>UnicodeEncodeError\<close> (the text holds a lone surrogate);
  \<^item> the text an f-string puts for a value;
  \<^item> \<open>x / y\<close> for two numbers, \<open>y\<close> not zero: the double Python returns, \<open>None\<close>
    where it raises \<open>OverflowError\<close> (an \<open>int\<close> too large for a float);
  \<^item> \<open>x * y\<close> for a float \<open>x\<close>: the double Python returns;
  \<^item> \<open>str.isalnum\<close> on one character, and \<open>str(e)\<close> of a caught exception.
  The two arithmetic functions round as the doubles do: \<open>(29 / 100) * 100\<close> is
  \<open>28.999999999999996\<close> in Python. Nothing below assumes they are exact.
\<close>

record py_lib =
  md5_hexdigest :: "string \<Rightarrow> string"
  str_encode :: "string \<Rightarrow> string option"
  fstr :: "pyval \<Rightarrow> string"
  true_div :: "real \<Rightarrow> real \<Rightarrow> real option"
  float_mul :: "real \<Rightarrow> real \<Rightarrow> real"
  isalnum :: "char \<Rightarrow> bool"
  exc_str :: "py_error \<Rightarrow> string"

section \<open>The job record\<close>

text \<open>The four values the \<open>'status'\<close> key takes in \<open>app.py\<close>.\<close>

datatype job_status = Queued | Downloading | Completed | Error

fun status_str :: "job_status \<Rightarrow> string" where
  "status_str Queued = ''queued''"
| "status_str Downloading = ''downloading''"
| "status_str Completed = ''completed''"
| "status_str Error = ''error''"

text \<open>
  The dictionary \<open>start_download\<close> builds (lines 114-129), one field per key. A time
  stamp is the text \<open>datetime.now().isoformat()\<close> returned; \<open>None\<close> is \<open>None\<close>.
\<close>

record job =
  job_id :: string
  url :: pyval
  format_id :: pyval
  filename :: pyval
  status :: job_status
  progress :: real
  started_at :: string
  completed_at :: "string option"
  error :: "string option"
  filepath :: "string option"
  downloaded_bytes :: pyval
  total_bytes :: pyval
  speed :: pyval
  eta :: pyval

section \<open>The download manager\<close>

text \<open>
  Python dictionaries are objects, handed around by reference: the registry
  \<open>self.downloads\<close> maps a download id to a reference, the worker keeps the reference in
  its local variable \<open>download\<close>, and \<open>get_download\<close> returns it. The job dictionaries
  therefore live in a store \<open>objs\<close>, a reference being an index into it; a new dictionary
  is put at the end, so its reference is fresh. \<open>submitted\<close> is the executor's work: the
  download ids \<open>executor.submit\<close> was called with, in order. A reference of the registry
  always points into the store, since nothing removes a dictionary; where a function
  below meets one that does not, it treats the id as missing.
\<close>

type_synonym ref = nat

record manager =
  objs :: "job list"
  downloads :: "string \<rightharpoonup> ref"
  submitted :: "string list"
  max_workers :: nat
  download_dir :: string
  settings_file :: "string option"

definition deref :: "manager \<Rightarrow> ref \<Rightarrow> job option" where
  "deref m a = (if a < length (objs m) then Some (objs m ! a) else None)"

text \<open>The record the registry holds for an id, read through the registry.\<close>

definition read_job :: "manager \<Rightarrow> string \<Rightarrow> job option" where
  "read_job m download_id =
     (case downloads m download_id of None \<Rightarrow> None | Some a \<Rightarrow> deref m a)"

text \<open>An assignment \<open>download[key] = value\<close> through the reference \<open>a\<close>.\<close>

definition upd_job :: "ref \<Rightarrow> (job \<Rightarrow> job) \<Rightarrow> manager \<Rightarrow> manager" where
  "upd_job a f m = m\<lparr>objs := (objs m)[a := f (objs m ! a)]\<rparr>"

subsection \<open>The progress hook (lines 189-208)\<close>

text \<open>
  The value of \<open>download['progress']\<close> the hook computes from \<open>total\<close>, \<open>downloaded\<close>
  and the progress recorded before (lines 198-201). \<open>total > 0\<close> on a string and a
  division of something that is not a number raise \<open>TypeError\<close>; the division of line
  199 is Python's, and so is the multiplication by 100 of its result.
\<close>

fun new_progress :: "py_lib \<Rightarrow> pyval \<Rightarrow> pyval \<Rightarrow> real \<Rightarrow> py_error + real" where
  "new_progress lib PyNone downloaded prev = Inr (min (prev + 10) 90)"
| "new_progress lib (PyStr s) downloaded prev =
     (if s = [] then Inr (min (prev + 10) 90) else Inl TypeError)"
| "new_progress lib (PyNum t) downloaded prev =
     (if t \<noteq> 0 \<and> t > 0 then
        (case downloaded of
           PyNum dl \<Rightarrow>
             (case true_div lib dl t of
                None \<Rightarrow> Inl OverflowError
              | Some q \<Rightarrow> Inr (float_mul lib q 100))
         | _ \<Rightarrow> Inl TypeError)
      else Inr (min (prev + 10) 90))"

text \<open>
  One call \<open>hook(d)\<close> of the hook made for \<open>download_id\<close>. \<open>d['status']\<close> raises
  \<open>KeyError\<close> when the key is missing; every raise comes before the first assignment,
  so a call that raises changes nothing.
\<close>

definition hook :: "py_lib \<Rightarrow> manager \<Rightarrow> string \<Rightarrow> pydict \<Rightarrow> py_error + manager" where
  "hook lib m download_id d =
     (case d ''status'' of
        None \<Rightarrow> Inl KeyError
      | Some st \<Rightarrow>
          if st = PyStr ''downloading'' then
            (case downloads m download_id of
               None \<Rightarrow> Inr m
             | Some a \<Rightarrow>
                 (case deref m a of
                    None \<Rightarrow> Inr m
                  | Some download \<Rightarrow>
                      let total = py_or (dict_get d ''total_bytes'')
                                        (dict_get d ''total_bytes_estimate'');
                          downloaded = dict_get_default d ''downloaded_bytes'' (PyNum 0)
                      in (case new_progress lib total downloaded (progress download) of
                            Inl e \<Rightarrow> Inl e
                          | Inr p \<Rightarrow>
                              Inr (upd_job a (\<lambda>j. j\<lparr>progress := p,
                                     downloaded_bytes := downloaded,
                                     total_bytes := total,
                                     speed := dict_get d ''speed'',
                                     eta := dict_get d ''eta''\<rparr>) m))))
          else Inr m)"

subsection \<open>\<open>start_download\<close> (lines 110-134)\<close>

text \<open>
  The id (line 112) is the first eight characters of the MD5 hex digest of the encoded
  f-string \<open>f"{url}{format_id}{time.time()}"\<close>; \<open>t\<close> is the value \<open>time.time()\<close>
  returned. The file name is not part of it. \<open>None\<close>: \<open>.encode()\<close> raises.
\<close>

definition make_id :: "py_lib \<Rightarrow> pyval \<Rightarrow> pyval \<Rightarrow> real \<Rightarrow> string option" where
  "make_id lib u fmt t =
     map_option (\<lambda>bytes. take 8 (md5_hexdigest lib bytes))
       (str_encode lib (fstr lib u @ fstr lib fmt @ fstr lib (PyNum t)))"

definition new_job :: "string \<Rightarrow> pyval \<Rightarrow> pyval \<Rightarrow> pyval \<Rightarrow> string \<Rightarrow> job" where
  "new_job download_id u fmt fname now =
     \<lparr>job_id = download_id, url = u, format_id = fmt, filename = fname,
      status = Queued, progress = 0, started_at = now, completed_at = None,
      error = None, filepath = None, downloaded_bytes = PyNum 0,
      total_bytes = PyNum 0, speed = PyNum 0, eta = PyNone\<rparr>"

text \<open>
  When line 112 raises, nothing has been written. Otherwise
  \<open>self.downloads[download_id] = {...}\<close> stores a new dictionary under the id, whether
  or not the id is already a key, and \<open>executor.submit\<close> queues the worker for the id.
  \<open>now\<close> is the text of \<open>datetime.now().isoformat()\<close>.
\<close>

definition start_download ::
  "py_lib \<Rightarrow> manager \<Rightarrow> pyval \<Rightarrow> pyval \<Rightarrow> pyval \<Rightarrow> real \<Rightarrow> string
     \<Rightarrow> py_error + string \<times> manager" where
  "start_download lib m u fmt fname t now =
     (case make_id lib u fmt t of
        None \<Rightarrow> Inl UnicodeEncodeError
      | Some download_id \<Rightarrow>
          let a = length (objs m)
          in Inr (download_id,
                  m\<lparr>objs := objs m @ [new_job download_id u fmt fname now],
                    downloads := (downloads m)(download_id \<mapsto> a),
                    submitted := submitted m @ [download_id]\<rparr>))"

subsection \<open>\<open>_download_worker\<close> (lines 136-187)\<close>

text \<open>
  What lies outside the program: whether \<open>mkdir\<close> of the download directory raises
  (\<open>Some\<close> the text of the exception), and what the extraction engine does when it is
  called with a format, a url and the safe file name of the output template: the progress
  events it passes to the hook, and then either its return together with the files
  \<open>glob\<close> finds afterwards, or an exception (of the engine, or of \<open>glob\<close> after it)
  with its text.
\<close>

datatype engine_outcome = Returned "string list" | Raised string

record outside =
  mkdir_raises :: "string option"
  run_engine :: "string \<Rightarrow> pyval \<Rightarrow> string \<Rightarrow> pydict list \<times> engine_outcome"

text \<open>
  \<open>str.rstrip()\<close> on what the filter of line 145 keeps: of the characters kept (the
  alphanumeric ones, space, hyphen, underscore, period) only the space is white space.
\<close>

definition rstrip :: "string \<Rightarrow> string" where
  "rstrip s = rev (dropWhile (\<lambda>c. c = CHR '' '') (rev s))"

definition safe_filename :: "py_lib \<Rightarrow> string \<Rightarrow> string \<Rightarrow> string" where
  "safe_filename lib fname timestamp =
     (let s = rstrip (filter (\<lambda>c. isalnum lib c \<or> c \<in> set '' -_.'') fname)
      in if s = [] then ''download_'' @ timestamp else s)"

text \<open>
  The state after one call of the hook: a call that raises leaves the state as it was.
\<close>

definition hook_state :: "py_lib \<Rightarrow> manager \<Rightarrow> string \<Rightarrow> pydict \<Rightarrow> manager" where
  "hook_state lib m download_id d =
     (case hook lib m download_id d of Inl e \<Rightarrow> m | Inr m' \<Rightarrow> m')"

text \<open>
  The calls of the hook the engine makes, as the list of the states after each call.
  What the engine does after a call that raised is part of the engine's behaviour (the
  rest of the events and the outcome).
\<close>

fun run_hooks :: "py_lib \<Rightarrow> manager \<Rightarrow> string \<Rightarrow> pydict list \<Rightarrow> manager list" where
  "run_hooks lib m download_id [] = []"
| "run_hooks lib m download_id (d # ds) =
     hook_state lib m download_id d
       # run_hooks lib (hook_state lib m download_id d) download_id ds"

text \<open>Lines 172-182, the states after each assignment, through the reference \<open>a\<close>.\<close>

definition worker_success :: "ref \<Rightarrow> string list \<Rightarrow> string \<Rightarrow> manager \<Rightarrow> manager list" where
  "worker_success a files now m =
     (let m0 = (case files of [] \<Rightarrow> m | f # fs \<Rightarrow> upd_job a (\<lambda>j. j\<lparr>filepath := Some f\<rparr>) m);
          m1 = upd_job a (\<lambda>j. j\<lparr>status := Completed\<rparr>) m0;
          m2 = upd_job a (\<lambda>j. j\<lparr>progress := 100\<rparr>) m1;
          m3 = upd_job a (\<lambda>j. j\<lparr>completed_at := Some now\<rparr>) m2
      in [m0, m1, m2, m3])"

text \<open>Lines 184-187, the states after each assignment; \<open>msg\<close> is \<open>str(e)\<close>.\<close>

definition worker_except :: "ref \<Rightarrow> string \<Rightarrow> string \<Rightarrow> manager \<Rightarrow> manager list" where
  "worker_except a msg now m =
     (let m1 = upd_job a (\<lambda>j. j\<lparr>status := Error\<rparr>) m;
          m2 = upd_job a (\<lambda>j. j\<lparr>error := Some msg\<rparr>) m1;
          m3 = upd_job a (\<lambda>j. j\<lparr>completed_at := Some now\<rparr>) m2
      in [m1, m2, m3])"

text \<open>
  One run of the worker for \<open>download_id\<close>, as the list of the states after each of
  its assignments and each call of the hook, in order. Line 138 reads the reference from
  the registry, outside the \<open>try\<close>: a missing id raises \<open>KeyError\<close> to the executor
  and nothing is written. Iterating a file name that is not a string (line 145) and
  \<open>'video' in format_id\<close> on a format that is not a string (line 166) raise
  \<open>TypeError\<close> into the \<open>except\<close> branch. \<open>timestamp\<close> is the text of line 144,
  \<open>now\<close> the text of \<open>datetime.now().isoformat()\<close> at the end.
\<close>

definition worker_trace ::
  "py_lib \<Rightarrow> outside \<Rightarrow> manager \<Rightarrow> string \<Rightarrow> string \<Rightarrow> string \<Rightarrow> manager list" where
  "worker_trace lib out m download_id timestamp now =
     (case downloads m download_id of
        None \<Rightarrow> []
      | Some a \<Rightarrow>
         (case deref m a of
            None \<Rightarrow> []
          | Some download \<Rightarrow>
              let m1 = upd_job a (\<lambda>j. j\<lparr>status := Downloading\<rparr>) m
              in m1 #
                 (case filename download of
                    PyStr fname \<Rightarrow>
                      (case mkdir_raises out of
                         Some msg \<Rightarrow> worker_except a msg now m1
                       | None \<Rightarrow>
                          (case format_id download of
                             PyStr fmt \<Rightarrow>
                               (case run_engine out fmt (url download)
                                       (safe_filename lib fname timestamp) of
                                  (events, outcome) \<Rightarrow>
                                    let hs = run_hooks lib m1 download_id events;
                                        m2 = last (m1 # hs)
                                    in hs @ (case outcome of
                                               Returned files \<Rightarrow> worker_success a files now m2
                                             | Raised msg \<Rightarrow> worker_except a msg now m2))
                           | _ \<Rightarrow> worker_except a (exc_str lib TypeError) now m1))
                  | _ \<Rightarrow> worker_except a (exc_str lib TypeError) now m1)))"

subsection \<open>\<open>get_download\<close> (lines 210-212)\<close>

text \<open>
  \<open>self.downloads.get(download_id, {})\<close> returns an object: the reference the registry
  holds, or a new empty dictionary.
\<close>

datatype pyobj = JobRef ref | EmptyDict

definition get_download :: "manager \<Rightarrow> string \<Rightarrow> pyobj" where
  "get_download m download_id =
     (case downloads m download_id of None \<Rightarrow> EmptyDict | Some a \<Rightarrow> JobRef a)"

text \<open>A dictionary is true when it has a key; a job dictionary has its fourteen.\<close>

fun obj_truthy :: "pyobj \<Rightarrow> bool" where
  "obj_truthy (JobRef a) = True"
| "obj_truthy EmptyDict = False"

text \<open>What a caller holding the object reads through it, and an assignment it makes
  through it. The empty dictionary is the caller's own: the manager holds no reference
  to it.\<close>

fun caller_view :: "manager \<Rightarrow> pyobj \<Rightarrow> job option" where
  "caller_view m (JobRef a) = deref m a"
| "caller_view m EmptyDict = None"

fun caller_mutate :: "pyobj \<Rightarrow> (job \<Rightarrow> job) \<Rightarrow> manager \<Rightarrow> manager" where
  "caller_mutate (JobRef a) f m = upd_job a f m"
| "caller_mutate EmptyDict f m = m"

section \<open>The request handlers\<close>

text \<open>
  What a handler sends, with the HTTP status: the JSON of \<open>send_json_response\<close>, or
  the error page of \<open>send_error\<close>.
\<close>

datatype json_body = ErrorJson string | StartedJson string | JobJson job | ErrorPage string

type_synonym response = "nat \<times> json_body"

text \<open>
  The body of a POST request as the handler finds it: the \<open>Content-Length\<close> header is
  missing or no number, so that line 1831 raises; or the bytes do not decode or parse as
  JSON, so that line 1835 raises; or they are JSON but no object (a list, a text, a
  number, \<open>null\<close>), so that \<open>data.get\<close> raises \<open>AttributeError\<close>; or they are a JSON
  object.
\<close>

datatype request_body = BadLength py_error | NotJson py_error | JsonOther | JsonObject pydict

text \<open>
  A POST to \<open>/api/download\<close>: \<open>handle_download\<close> (lines 1829-1854), and the
  \<open>except\<close> of \<open>do_POST\<close> (lines 1744-1745) for what line 1831 raises outside the
  \<open>try\<close>. Only \<open>url\<close> and \<open>format_id\<close> are checked; a missing \<open>filename\<close> is
  \<open>'download'\<close>. Whatever is raised inside the \<open>try\<close>, by \<open>start_download\<close> too,
  is answered 500.
\<close>

definition handle_download ::
  "py_lib \<Rightarrow> manager \<Rightarrow> request_body \<Rightarrow> real \<Rightarrow> string \<Rightarrow> response \<times> manager" where
  "handle_download lib m body t now =
     (case body of
        BadLength e \<Rightarrow> ((500, ErrorPage (''Internal server error: '' @ exc_str lib e)), m)
      | NotJson e \<Rightarrow> ((500, ErrorJson (''Download failed: '' @ exc_str lib e)), m)
      | JsonOther \<Rightarrow> ((500, ErrorJson (''Download failed: '' @ exc_str lib AttributeError)), m)
      | JsonObject data \<Rightarrow>
          let u = dict_get data ''url'';
              fmt = dict_get data ''format_id'';
              fname = dict_get_default data ''filename'' (PyStr ''download'')
          in if \<not> truthy u \<or> \<not> truthy fmt
             then ((400, ErrorJson ''URL and format_id are required''), m)
             else (case start_download lib m u fmt fname t now of
                     Inl e \<Rightarrow> ((500, ErrorJson (''Download failed: '' @ exc_str lib e)), m)
                   | Inr (download_id, m') \<Rightarrow> ((200, StartedJson download_id), m')))"

text \<open>
  \<open>get_download_status\<close> (lines 1881-1893). A reference of the registry always points
  into the store; a dangling one is answered here like the \<open>except\<close> branch.
\<close>

definition get_download_status :: "manager \<Rightarrow> string \<Rightarrow> response \<times> manager" where
  "get_download_status m download_id =
     (let download = get_download m download_id
      in if \<not> obj_truthy download
         then ((404, ErrorJson ''Download not found''), m)
         else (case caller_view m download of
                 Some j \<Rightarrow> ((200, JobJson j), m)
               | None \<Rightarrow> ((500, ErrorJson []), m)))"

section \<open>The singleton (lines 55-74)\<close>








section \<open>What a poll of a job shows\<close>

text \<open>
  The pair of \<open>status\<close> and \<open>completed_at\<close> that a reader of the registry finds under
  an id, \<open>None\<close> when there is no record.
\<close>

definition sc_view :: "manager \<Rightarrow> string \<Rightarrow> (job_status \<times> string option) option" where
  "sc_view m i = map_option (\<lambda>j. (status j, completed_at j)) (read_job m i)"

text \<open>
  The order of the states: a status stays, or goes from \<open>queued\<close> to \<open>downloading\<close>,
  or from \<open>downloading\<close> to \<open>completed\<close> or \<open>error\<close>.
\<close>

definition status_fwd :: "job_status \<Rightarrow> job_status \<Rightarrow> bool" where
  "status_fwd s s' =
     (s' = s \<or> (s = Queued \<and> s' = Downloading)
      \<or> (s = Downloading \<and> (s' = Completed \<or> s' = Error)))"


text \<open>
  What the three last assignments of the worker show in turn: of lines 180-182 when the
  engine returned, of lines 185-187 when something raised; \<open>c\<close> is the
  \<open>completed_at\<close> found before.
\<close>

definition finished_views :: "bool \<Rightarrow> string option \<Rightarrow> string
    \<Rightarrow> (job_status \<times> string option) option list" where
  "finished_views ok c now =
     (if ok then [Some (Completed, c), Some (Completed, c), Some (Completed, Some now)]
      else [Some (Error, c), Some (Error, c), Some (Error, Some now)])"

section \<open>Examples\<close>

text \<open>
  A library for the examples. Any digest does, here the bytes themselves. The byte
  \<open>0xED\<close> stands for a lone surrogate: a text that holds it does not encode. The
  arithmetic is the exact one, which is Python's at the values of the examples:
  \<open>50 / 100 = 0.5\<close>, \<open>0.5 * 100 = 50\<close>, \<open>150 / 100 = 1.5\<close> and
  \<open>1.5 * 100 = 150\<close> are doubles, so nothing is rounded there.
\<close>

definition lib0 :: py_lib where
  "lib0 = \<lparr>md5_hexdigest = (\<lambda>s. s),
           str_encode = (\<lambda>s. if CHR 0xED \<in> set s then None else Some s),
           fstr = (\<lambda>v. case v of PyStr s \<Rightarrow> s | _ \<Rightarrow> []),
           true_div = (\<lambda>x y. Some (x / y)),
           float_mul = (\<lambda>x y. x * y),
           isalnum = (\<lambda>c. c \<in> set ''abcdefghijklmnopqrstuvwxyz0123456789''),
           exc_str = (\<lambda>e. ''error'')\<rparr>"

definition m_empty :: manager where
  "m_empty = \<lparr>objs = [], downloads = Map.empty, submitted = [], max_workers = 4,
              download_dir = ''/home/u/Downloads/MediaDownloader'',
              settings_file = Some ''/home/u/Downloads/MediaDownloader/settings.json''\<rparr>"

text \<open>A manager with one job, downloading, at 88 percent, speed 1000 bytes per second.\<close>

definition job88 :: job where
  "job88 = (new_job ''a1b2c3d4'' (PyStr ''http://x/v'') (PyStr ''best'') (PyStr ''clip'')
              ''2026-01-01T10:00:00'')
            \<lparr>status := Downloading, progress := 88, downloaded_bytes := PyNum 40,
             total_bytes := PyNum 100, speed := PyNum 1000, eta := PyNum 7\<rparr>"

definition m_one :: manager where
  "m_one = m_empty\<lparr>objs := [job88], downloads := [''a1b2c3d4'' \<mapsto> 0],
                  submitted := [''a1b2c3d4'']\<rparr>"

definition ev_unknown :: pydict where
  "ev_unknown = [''status'' \<mapsto> PyStr ''downloading'', ''downloaded_bytes'' \<mapsto> PyNum 10,
                 ''total_bytes'' \<mapsto> PyNum 0]"

definition ev_half :: pydict where
  "ev_half = [''status'' \<mapsto> PyStr ''downloading'', ''downloaded_bytes'' \<mapsto> PyNum 50,
              ''total_bytes'' \<mapsto> PyNum 100]"

definition ev_over :: pydict where
  "ev_over = [''status'' \<mapsto> PyStr ''downloading'', ''downloaded_bytes'' \<mapsto> PyNum 150,
              ''total_bytes_estimate'' \<mapsto> PyNum 100]"

definition ev_negative :: pydict where
  "ev_negative = [''status'' \<mapsto> PyStr ''downloading'', ''downloaded_bytes'' \<mapsto> PyNum 50,
                  ''total_bytes'' \<mapsto> PyNum (- 1), ''total_bytes_estimate'' \<mapsto> PyNum 100]"

text \<open>Request bodies: an empty file name, an empty url, a url that is a lone surrogate.\<close>

definition body_no_name :: pydict where
  "body_no_name = [''url'' \<mapsto> PyStr ''http://x/v'', ''format_id'' \<mapsto> PyStr ''best'',
                   ''filename'' \<mapsto> PyStr []]"

definition body_no_url :: pydict where
  "body_no_url = [''url'' \<mapsto> PyStr [], ''format_id'' \<mapsto> PyStr ''best'',
                  ''filename'' \<mapsto> PyStr ''clip'']"

definition body_surrogate :: pydict where
  "body_surrogate = [''url'' \<mapsto> PyStr [CHR 0xED, CHR 0xA0, CHR 0x80],
                     ''format_id'' \<mapsto> PyStr ''best'', ''filename'' \<mapsto> PyStr ''clip'']"


definition job_queued :: job where
  "job_queued = new_job ''http://x'' (PyStr ''http://x/v'') (PyStr ''best'') (PyStr ''clip'')
                  ''2026-01-01T10:00:00''"

definition job_queued2 :: job where
  "job_queued2 = new_job ''http://x'' (PyStr ''http://x/v'') (PyStr ''best'') (PyStr ''clip2'')
                   ''2026-01-01T10:00:00''"

definition m_queued :: manager where
  "m_queued = m_empty\<lparr>objs := [job_queued], downloads := [''http://x'' \<mapsto> 0],
                     submitted := [''http://x'']\<rparr>"

definition m_twice :: manager where
  "m_twice = m_empty\<lparr>objs := [job_queued, job_queued2], downloads := [''http://x'' \<mapsto> 1],
                    submitted := [''http://x'', ''http://x'']\<rparr>"







section \<open>Properties of the progress hook\<close>

lemma read_job_upd_job:
  "downloads m i = Some a \<Longrightarrow> deref m a = Some j \<Longrightarrow> read_job (upd_job a f m) i = Some (f j)"
  by (simp add: read_job_def upd_job_def deref_def split: if_splits)

lemma py_or_unknown:
  "x = PyNone \<or> x = PyNum 0 \<Longrightarrow> y = PyNone \<or> y = PyNum 0 \<Longrightarrow>
   py_or x y = PyNone \<or> py_or x y = PyNum 0"
  by (auto simp: py_or_def)

lemma new_progress_unknown:
  "t = PyNone \<or> t = PyNum 0 \<Longrightarrow> new_progress lib t dl prev = Inr (min (prev + 10) 90)"
  by auto

lemma read_job_m_one: "read_job m_one ''a1b2c3d4'' = Some job88"
  by (simp add: read_job_def m_one_def deref_def)

text \<open>
  C3. A progress event with status \<open>downloading\<close> whose \<open>total_bytes\<close> and
  \<open>total_bytes_estimate\<close> are both missing, \<open>None\<close> or zero sets the progress of the
  job to \<open>min (previous + 10) 90\<close>, which is at most 90, whatever the other keys of
  the event hold.
\<close>

theorem hook_unknown_total:
  assumes "d ''status'' = Some (PyStr ''downloading'')"
    and "read_job m i = Some j"
    and "dict_get d ''total_bytes'' = PyNone \<or> dict_get d ''total_bytes'' = PyNum 0"
    and "dict_get d ''total_bytes_estimate'' = PyNone
         \<or> dict_get d ''total_bytes_estimate'' = PyNum 0"
  shows "\<exists>m'. hook lib m i d = Inr m'
           \<and> map_option progress (read_job m' i) = Some (min (progress j + 10) 90)
           \<and> min (progress j + 10) 90 \<le> 90"
proof -
  from assms(2) obtain a where a: "downloads m i = Some a" "deref m a = Some j"
    by (auto simp: read_job_def split: option.splits)
  let ?total = "py_or (dict_get d ''total_bytes'') (dict_get d ''total_bytes_estimate'')"
  have "?total = PyNone \<or> ?total = PyNum 0"
    using assms(3,4) by (rule py_or_unknown)
  then have np: "new_progress lib ?total (dict_get_default d ''downloaded_bytes'' (PyNum 0))
        (progress j)
      = Inr (min (progress j + 10) 90)"
    by (rule new_progress_unknown)
  show ?thesis
    using assms(1) a np by (simp add: hook_def Let_def read_job_upd_job)
qed

text \<open>The job at 88 percent and an event of 10 bytes with total 0: 90, not 98.\<close>

theorem hook_unknown_total_witness:
  "ev_unknown ''status'' = Some (PyStr ''downloading'')
   \<and> read_job m_one ''a1b2c3d4'' = Some job88
   \<and> dict_get ev_unknown ''total_bytes'' = PyNum 0
   \<and> dict_get ev_unknown ''total_bytes_estimate'' = PyNone
   \<and> progress job88 = 88
   \<and> (\<exists>m'. hook lib0 m_one ''a1b2c3d4'' ev_unknown = Inr m'
           \<and> map_option progress (read_job m' ''a1b2c3d4'') = Some 90)"
proof -
  have s: "ev_unknown ''status'' = Some (PyStr ''downloading'')"
    by (simp add: ev_unknown_def)
  have t: "dict_get ev_unknown ''total_bytes'' = PyNum 0"
    by (simp add: ev_unknown_def dict_get_def)
  have e: "dict_get ev_unknown ''total_bytes_estimate'' = PyNone"
    by (simp add: ev_unknown_def dict_get_def)
  have p: "progress job88 = 88"
    by (simp add: job88_def)
  from hook_unknown_total [of ev_unknown m_one "''a1b2c3d4''" job88 lib0]
  show ?thesis using s t e p read_job_m_one by simp
qed

lemma hook_state_Inr: "hook lib m i d = Inr m' \<Longrightarrow> hook_state lib m i d = m'"
  by (simp add: hook_state_def)

lemma py_or_total:
  assumes "x = PyNum tot \<or> ((x = PyNone \<or> x = PyNum 0) \<and> y = PyNum tot)" and "0 < tot"
  shows "py_or x y = PyNum tot"
  using assms by (auto simp: py_or_def)

text \<open>
  C1, as amended. A progress event with status \<open>downloading\<close> whose effective total
  (\<open>total_bytes\<close> when it is a positive number, otherwise, when \<open>total_bytes\<close> is
  missing, \<open>None\<close> or zero, \<open>total_bytes_estimate\<close>) is a positive number, and whose
  \<open>downloaded_bytes\<close> is a number (0 when the key is missing), sets the progress of the
  job to the value Python computes for \<open>(downloaded / total) * 100\<close>, a double division
  and then a double multiplication, and nothing clamps it. Where the division raises
  \<open>OverflowError\<close>, so does the hook.
\<close>

theorem hook_known_total:
  assumes "d ''status'' = Some (PyStr ''downloading'')"
    and "read_job m i = Some j"
    and "dict_get d ''total_bytes'' = PyNum tot
         \<or> ((dict_get d ''total_bytes'' = PyNone \<or> dict_get d ''total_bytes'' = PyNum 0)
             \<and> dict_get d ''total_bytes_estimate'' = PyNum tot)"
    and "0 < tot"
    and "dict_get_default d ''downloaded_bytes'' (PyNum 0) = PyNum dl"
  shows "case true_div lib dl tot of
           None \<Rightarrow> hook lib m i d = Inl OverflowError
         | Some q \<Rightarrow>
             (\<exists>m'. hook lib m i d = Inr m'
                \<and> map_option progress (read_job m' i) = Some (float_mul lib q 100))"
proof -
  from assms(2) obtain a where a: "downloads m i = Some a" "deref m a = Some j"
    by (auto simp: read_job_def split: option.splits)
  have tot: "py_or (dict_get d ''total_bytes'') (dict_get d ''total_bytes_estimate'') = PyNum tot"
    using assms(3,4) by (rule py_or_total)
  have np: "new_progress lib (PyNum tot) (PyNum dl) (progress j)
      = (case true_div lib dl tot of
           None \<Rightarrow> Inl OverflowError
         | Some q \<Rightarrow> Inr (float_mul lib q 100))"
    using assms(4) by simp
  show ?thesis
    using assms(1,5) a tot np
    by (simp add: hook_def Let_def read_job_upd_job split: option.splits)
qed

text \<open>50 bytes of 100: progress 50.\<close>

theorem hook_known_total_witness:
  "ev_half ''status'' = Some (PyStr ''downloading'')
   \<and> read_job m_one ''a1b2c3d4'' = Some job88
   \<and> dict_get ev_half ''total_bytes'' = PyNum 100 \<and> (0::real) < 100
   \<and> dict_get_default ev_half ''downloaded_bytes'' (PyNum 0) = PyNum 50
   \<and> true_div lib0 50 100 = Some (1 / 2) \<and> float_mul lib0 (1 / 2) 100 = 50
   \<and> map_option progress (read_job (hook_state lib0 m_one ''a1b2c3d4'' ev_half) ''a1b2c3d4'')
       = Some 50"
proof -
  have s: "ev_half ''status'' = Some (PyStr ''downloading'')"
    by (simp add: ev_half_def)
  have t: "dict_get ev_half ''total_bytes'' = PyNum 100"
    by (simp add: ev_half_def dict_get_def)
  have dl: "dict_get_default ev_half ''downloaded_bytes'' (PyNum 0) = PyNum 50"
    by (simp add: ev_half_def dict_get_default_def)
  have ar: "true_div lib0 50 100 = Some (1 / 2)" "float_mul lib0 (1 / 2) 100 = 50"
    by (simp_all add: lib0_def)
  from hook_known_total [of ev_half m_one "''a1b2c3d4''" job88 100 50 lib0] s t dl
    read_job_m_one ar
  obtain m' where "hook lib0 m_one ''a1b2c3d4'' ev_half = Inr m'"
    and "map_option progress (read_job m' ''a1b2c3d4'') = Some 50"
    by auto
  then show ?thesis using s t dl ar read_job_m_one by (simp add: hook_state_Inr)
qed

lemmas hook_eval = hook_state_def hook_def m_one_def m_empty_def read_job_def deref_def
  upd_job_def dict_get_def dict_get_default_def py_or_def job88_def new_job_def Let_def
  lib0_def

text \<open>
  C1 as stated fails. 150 bytes downloaded of an estimated total of 100 give the progress
  150, where the clamped value would be 100. And a \<open>total_bytes\<close> of -1 is not replaced
  by the estimate of 100: 50 bytes downloaded then give, from 88, the progress 90 of the
  other rule and not 50.
\<close>

theorem hook_progress_not_clamped:
  "map_option progress (read_job (hook_state lib0 m_one ''a1b2c3d4'' ev_over) ''a1b2c3d4'')
     = Some 150
   \<and> Some (150::real) \<noteq> Some (max 0 (min 100 (100 * 150 / 100)))
   \<and> map_option progress (read_job (hook_state lib0 m_one ''a1b2c3d4'' ev_negative) ''a1b2c3d4'')
     = Some 90
   \<and> Some (90::real) \<noteq> Some (max 0 (min 100 (100 * 50 / 100)))"
  by (simp add: hook_eval ev_over_def ev_negative_def)

text \<open>
  C6, as amended. A call of the hook that returns on an event with status
  \<open>downloading\<close> overwrites the four fields from the event and leaves the other fields
  but \<open>progress\<close> alone: \<open>downloaded_bytes\<close> becomes the event's value, 0 when the key
  is missing; \<open>total_bytes\<close> becomes the event's \<open>total_bytes\<close> when that is true,
  otherwise its \<open>total_bytes_estimate\<close>, \<open>None\<close> when that is missing too;
  \<open>speed\<close> and \<open>eta\<close> become the event's values, \<open>None\<close> when missing. An event
  with another status changes nothing, and neither does a call that raises.
\<close>

theorem hook_overwrites_fields:
  assumes "read_job m i = Some j"
  shows "case hook lib m i d of
           Inl e \<Rightarrow> hook_state lib m i d = m
         | Inr m' \<Rightarrow>
             if d ''status'' = Some (PyStr ''downloading'')
             then \<exists>p. read_job m' i = Some (j\<lparr>progress := p,
                    downloaded_bytes := dict_get_default d ''downloaded_bytes'' (PyNum 0),
                    total_bytes := py_or (dict_get d ''total_bytes'')
                                         (dict_get d ''total_bytes_estimate''),
                    speed := dict_get d ''speed'',
                    eta := dict_get d ''eta''\<rparr>)
             else m' = m"
proof -
  from assms obtain a where a: "downloads m i = Some a" "deref m a = Some j"
    by (auto simp: read_job_def split: option.splits)
  show ?thesis
    using a
    by (auto simp: hook_def hook_state_def Let_def read_job_upd_job
        split: option.splits sum.splits)
qed

text \<open>The job at 88 percent and an event of 10 bytes with total 0.\<close>

theorem hook_overwrites_fields_witness:
  "read_job m_one ''a1b2c3d4'' = Some job88
   \<and> hook lib0 m_one ''a1b2c3d4'' ev_unknown = Inr (hook_state lib0 m_one ''a1b2c3d4'' ev_unknown)
   \<and> map_option downloaded_bytes (read_job (hook_state lib0 m_one ''a1b2c3d4'' ev_unknown) ''a1b2c3d4'')
       = Some (PyNum 10)
   \<and> map_option total_bytes (read_job (hook_state lib0 m_one ''a1b2c3d4'' ev_unknown) ''a1b2c3d4'')
       = Some PyNone"
proof -
  have h: "hook lib0 m_one ''a1b2c3d4'' ev_unknown = Inr (hook_state lib0 m_one ''a1b2c3d4'' ev_unknown)"
    by (simp add: hook_state_def hook_def ev_unknown_def m_one_def m_empty_def deref_def
        dict_get_def dict_get_default_def py_or_def Let_def)
  have s: "ev_unknown ''status'' = Some (PyStr ''downloading'')"
    by (simp add: ev_unknown_def)
  have g: "dict_get_default ev_unknown ''downloaded_bytes'' (PyNum 0) = PyNum 10"
      "py_or (dict_get ev_unknown ''total_bytes'') (dict_get ev_unknown ''total_bytes_estimate'')
         = PyNone"
    by (simp_all add: ev_unknown_def dict_get_def dict_get_default_def py_or_def)
  from hook_overwrites_fields [OF read_job_m_one, of lib0 ev_unknown] h s g
  show ?thesis
    using read_job_m_one by auto
qed

text \<open>
  C6 as stated fails: the job has speed 1000 and eta 7 recorded, the event has neither
  key, and afterwards both are \<open>None\<close>.
\<close>

theorem hook_erases_speed:
  "speed job88 = PyNum 1000 \<and> eta job88 = PyNum 7
   \<and> ev_unknown ''speed'' = None \<and> ev_unknown ''eta'' = None
   \<and> read_job m_one ''a1b2c3d4'' = Some job88
   \<and> map_option speed (read_job (hook_state lib0 m_one ''a1b2c3d4'' ev_unknown) ''a1b2c3d4'')
       = Some PyNone
   \<and> map_option eta (read_job (hook_state lib0 m_one ''a1b2c3d4'' ev_unknown) ''a1b2c3d4'')
       = Some PyNone"
  by (simp add: hook_eval ev_unknown_def)

section \<open>Properties of \<open>get_download\<close>\<close>

text \<open>
  C9. For an id that is not a key of the registry, \<open>get_download\<close> returns the empty
  dictionary, which is false and has no field of a job record, and
  \<open>get_download_status\<close> answers 404 with \<open>Download not found\<close>; the manager is
  unchanged.
\<close>

theorem get_download_unknown:
  assumes "downloads m i = None"
  shows "get_download m i = EmptyDict
         \<and> \<not> obj_truthy (get_download m i)
         \<and> caller_view m (get_download m i) = None
         \<and> get_download_status m i = ((404, ErrorJson ''Download not found''), m)"
  using assms by (simp add: get_download_def get_download_status_def)

text \<open>The manager with one job, asked for another id.\<close>

theorem get_download_unknown_witness:
  "downloads m_one ''ffffffff'' = None
   \<and> get_download m_one ''ffffffff'' = EmptyDict
   \<and> get_download_status m_one ''ffffffff'' = ((404, ErrorJson ''Download not found''), m_one)"
proof -
  have n: "downloads m_one ''ffffffff'' = None"
    by (simp add: m_one_def)
  from get_download_unknown [OF n] n show ?thesis by simp
qed

section \<open>The frame of the hook and of the worker\<close>

lemma upd_job_simps [simp]:
  "downloads (upd_job a f m) = downloads m"
  "length (objs (upd_job a f m)) = length (objs m)"
  "submitted (upd_job a f m) = submitted m"
  by (simp_all add: upd_job_def)

lemma deref_upd_job:
  "deref (upd_job a f m) b =
     (if b < length (objs m) then Some (if b = a then f (objs m ! a) else objs m ! b) else None)"
  by (simp add: deref_def upd_job_def)

lemma deref_Some: "deref m a = Some j \<longleftrightarrow> a < length (objs m) \<and> objs m ! a = j"
  by (auto simp: deref_def)

lemma map_update_same: "i < length xs \<Longrightarrow> (map f xs)[i := f (xs ! i)] = map f xs"
  by (simp add: list_eq_iff_nth_eq nth_list_update)

text \<open>The hook writes neither \<open>status\<close> nor \<open>completed_at\<close>, of any record.\<close>

lemma hook_state_frame:
  "downloads (hook_state lib m i d) = downloads m
   \<and> map status (objs (hook_state lib m i d)) = map status (objs m)
   \<and> map completed_at (objs (hook_state lib m i d)) = map completed_at (objs m)"
  by (auto simp: hook_state_def hook_def Let_def upd_job_def deref_def map_update map_update_same
      split: option.splits sum.splits)

lemma frame_deref:
  assumes "map status (objs m') = map status (objs m)"
    and "map completed_at (objs m') = map completed_at (objs m)"
  shows "map_option (\<lambda>j. (status j, completed_at j)) (deref m' a)
       = map_option (\<lambda>j. (status j, completed_at j)) (deref m a)"
proof -
  have l: "length (objs m') = length (objs m)"
    using assms(1) by (metis length_map)
  show ?thesis
  proof (cases "a < length (objs m)")
    case True
    have "status (objs m' ! a) = status (objs m ! a)"
      using assms(1) True l by (metis nth_map)
    moreover have "completed_at (objs m' ! a) = completed_at (objs m ! a)"
      using assms(2) True l by (metis nth_map)
    ultimately show ?thesis using True l by (simp add: deref_def)
  next
    case False
    then show ?thesis using l by (simp add: deref_def)
  qed
qed

lemma hook_state_sc_view: "sc_view (hook_state lib m i' d) i = sc_view m i"
  using hook_state_frame [of lib m i' d] frame_deref [of "hook_state lib m i' d" m]
  by (simp add: sc_view_def read_job_def option.map_comp split: option.splits)

lemma sc_view_upd_job:
  assumes "downloads m i = Some a" and "a < length (objs m)"
  shows "sc_view (upd_job a f m) i = Some (status (f (objs m ! a)), completed_at (f (objs m ! a)))"
  using assms by (simp add: sc_view_def read_job_def deref_upd_job)

lemma sc_view_Some:
  assumes "downloads m i = Some a" and "a < length (objs m)"
  shows "sc_view m i = Some (status (objs m ! a), completed_at (objs m ! a))"
  using assms by (simp add: sc_view_def read_job_def deref_def)

lemma objs_upd_job_same: "a < length (objs m) \<Longrightarrow> objs (upd_job a f m) ! a = f (objs m ! a)"
  by (simp add: upd_job_def)

lemma hook_state_length: "length (objs (hook_state lib m i d)) = length (objs m)"
  using hook_state_frame [of lib m i d] by (metis length_map)

lemma run_hooks_frame:
  "s \<in> set (run_hooks lib m i' ds) \<Longrightarrow>
     downloads s = downloads m \<and> length (objs s) = length (objs m) \<and> sc_view s i = sc_view m i"
proof (induction ds arbitrary: m)
  case Nil
  then show ?case by simp
next
  case (Cons d ds)
  have h: "downloads (hook_state lib m i' d) = downloads m"
      "length (objs (hook_state lib m i' d)) = length (objs m)"
      "sc_view (hook_state lib m i' d) i = sc_view m i"
    using hook_state_frame [of lib m i' d] by (simp_all add: hook_state_length hook_state_sc_view)
  from Cons.prems have "s = hook_state lib m i' d \<or> s \<in> set (run_hooks lib (hook_state lib m i' d) i' ds)"
    by simp
  then show ?case
  proof
    assume "s = hook_state lib m i' d"
    then show ?thesis using h by simp
  next
    assume "s \<in> set (run_hooks lib (hook_state lib m i' d) i' ds)"
    from Cons.IH [OF this] h show ?thesis by simp
  qed
qed

lemma run_hooks_last_frame:
  "downloads (last (m # run_hooks lib m i' ds)) = downloads m
   \<and> length (objs (last (m # run_hooks lib m i' ds))) = length (objs m)
   \<and> sc_view (last (m # run_hooks lib m i' ds)) i = sc_view m i"
proof (cases "run_hooks lib m i' ds = []")
  case True
  then show ?thesis by simp
next
  case False
  then have "last (m # run_hooks lib m i' ds) \<in> set (run_hooks lib m i' ds)"
    by simp
  from run_hooks_frame [OF this] show ?thesis .
qed

lemma run_hooks_views:
  "map (\<lambda>s. sc_view s i) (run_hooks lib m i' ds) = replicate (length ds) (sc_view m i)"
proof -
  have "\<forall>v \<in> set (map (\<lambda>s. sc_view s i) (run_hooks lib m i' ds)). v = sc_view m i"
    using run_hooks_frame [of _ lib m i' ds i] by auto
  moreover have "length (run_hooks lib m i' ds) = length ds"
    by (induction ds arbitrary: m) simp_all
  ultimately show ?thesis
    by (simp add: replicate_length_same [symmetric] map_replicate_const [symmetric]
        list_eq_iff_nth_eq)
qed

lemma worker_success_views:
  assumes "downloads m i = Some a" and "a < length (objs m)" and "sc_view m i = Some (st, c)"
  shows "map (\<lambda>s. sc_view s i) (worker_success a files now m)
       = [Some (st, c), Some (Completed, c), Some (Completed, c), Some (Completed, Some now)]"
proof -
  from assms have sc: "status (objs m ! a) = st" "completed_at (objs m ! a) = c"
    by (simp_all add: sc_view_Some)
  show ?thesis
    using assms(1,2) sc
    by (cases files)
      (simp_all add: worker_success_def Let_def sc_view_upd_job objs_upd_job_same sc_view_Some)
qed

lemma worker_except_views:
  assumes "downloads m i = Some a" and "a < length (objs m)" and "sc_view m i = Some (st, c)"
  shows "map (\<lambda>s. sc_view s i) (worker_except a msg now m)
       = [Some (Error, c), Some (Error, c), Some (Error, Some now)]"
proof -
  from assms have sc: "status (objs m ! a) = st" "completed_at (objs m ! a) = c"
    by (simp_all add: sc_view_Some)
  show ?thesis
    using assms(1,2) sc
    by (simp add: worker_except_def Let_def sc_view_upd_job objs_upd_job_same)
qed

lemma engine_part_views:
  assumes "downloads m1 i = Some a" and "a < length (objs m1)"
    and "sc_view m1 i = Some (Downloading, c)"
  shows "\<exists>n. map (\<lambda>s. sc_view s i)
           (run_hooks lib m1 i evs @
             (case outcome of
                Returned files \<Rightarrow> worker_success a files now (last (m1 # run_hooks lib m1 i evs))
              | Raised msg \<Rightarrow> worker_except a msg now (last (m1 # run_hooks lib m1 i evs))))
         = replicate n (Some (Downloading, c))
           @ (if (\<exists>files. outcome = Returned files)
              then [Some (Completed, c), Some (Completed, c), Some (Completed, Some now)]
              else [Some (Error, c), Some (Error, c), Some (Error, Some now)])"
proof -
  let ?m2 = "last (m1 # run_hooks lib m1 i evs)"
  have f: "downloads ?m2 i = Some a \<and> a < length (objs ?m2) \<and> sc_view ?m2 i = Some (Downloading, c)"
    using run_hooks_last_frame [of m1 lib i evs i] assms by (metis (no_types, lifting))
  have h: "map (\<lambda>s. sc_view s i) (run_hooks lib m1 i evs)
      = replicate (length evs) (Some (Downloading, c))"
    using run_hooks_views [of i lib m1 i evs] assms(3) by simp
  show ?thesis
  proof (cases outcome)
    case (Returned files)
    have "map (\<lambda>s. sc_view s i) (worker_success a files now ?m2)
        = [Some (Downloading, c), Some (Completed, c), Some (Completed, c),
           Some (Completed, Some now)]"
      using f by (intro worker_success_views) simp_all
    then have "map (\<lambda>s. sc_view s i) (run_hooks lib m1 i evs @ worker_success a files now ?m2)
        = replicate (Suc (length evs)) (Some (Downloading, c))
          @ [Some (Completed, c), Some (Completed, c), Some (Completed, Some now)]"
      using h by (simp add: replicate_append_same)
    then show ?thesis using Returned by (intro exI [of _ "Suc (length evs)"]) simp
  next
    case (Raised msg)
    have "map (\<lambda>s. sc_view s i) (worker_except a msg now ?m2)
        = [Some (Error, c), Some (Error, c), Some (Error, Some now)]"
      using f by (intro worker_except_views [where st = Downloading]) simp_all
    then show ?thesis using Raised h by (intro exI [of _ "length evs"]) simp
  qed
qed

text \<open>
  What a poll shows along one run of the worker: \<open>downloading\<close> after line 141 and
  after every call of the hook, then the three last assignments.
\<close>

lemma worker_trace_views:
  assumes "read_job m i = Some j"
  shows "\<exists>n ok. map (\<lambda>s. sc_view s i) (worker_trace lib out m i ts now)
           = replicate (Suc n) (Some (Downloading, completed_at j))
             @ finished_views ok (completed_at j) now"
proof -
  let ?c = "completed_at j"
  from assms obtain a where a: "downloads m i = Some a" "deref m a = Some j"
    by (auto simp: read_job_def split: option.splits)
  then have al: "a < length (objs m)" and aj: "objs m ! a = j"
    by (simp_all add: deref_Some)
  let ?m1 = "upd_job a (\<lambda>j. j\<lparr>status := Downloading\<rparr>) m"
  have m1: "downloads ?m1 i = Some a" "a < length (objs ?m1)"
      "sc_view ?m1 i = Some (Downloading, ?c)"
    using a al aj by (simp_all add: sc_view_upd_job)
  have exc: "\<And>msg. map (\<lambda>s. sc_view s i) (worker_except a msg now ?m1)
      = finished_views False ?c now"
    using m1 by (simp add: worker_except_views [where st = Downloading] finished_views_def)
  have eng: "\<And>evs outcome. \<exists>n ok. map (\<lambda>s. sc_view s i)
           (run_hooks lib ?m1 i evs @
             (case outcome of
                Returned files \<Rightarrow> worker_success a files now (last (?m1 # run_hooks lib ?m1 i evs))
              | Raised msg \<Rightarrow> worker_except a msg now (last (?m1 # run_hooks lib ?m1 i evs))))
         = replicate n (Some (Downloading, ?c)) @ finished_views ok ?c now"
  proof -
    fix evs outcome
    from engine_part_views [OF m1, where evs = evs and outcome = outcome and now = now]
    obtain n where "map (\<lambda>s. sc_view s i)
           (run_hooks lib ?m1 i evs @
             (case outcome of
                Returned files \<Rightarrow> worker_success a files now (last (?m1 # run_hooks lib ?m1 i evs))
              | Raised msg \<Rightarrow> worker_except a msg now (last (?m1 # run_hooks lib ?m1 i evs))))
         = replicate n (Some (Downloading, ?c))
           @ finished_views (\<exists>files. outcome = Returned files) ?c now"
      unfolding finished_views_def by blast
    then show "\<exists>n ok. map (\<lambda>s. sc_view s i)
           (run_hooks lib ?m1 i evs @
             (case outcome of
                Returned files \<Rightarrow> worker_success a files now (last (?m1 # run_hooks lib ?m1 i evs))
              | Raised msg \<Rightarrow> worker_except a msg now (last (?m1 # run_hooks lib ?m1 i evs))))
         = replicate n (Some (Downloading, ?c)) @ finished_views ok ?c now"
      by blast
  qed
  have tr: "worker_trace lib out m i ts now = ?m1 # tl (worker_trace lib out m i ts now)"
    using a by (simp add: worker_trace_def Let_def)
  have "\<exists>n ok. map (\<lambda>s. sc_view s i) (tl (worker_trace lib out m i ts now))
           = replicate n (Some (Downloading, ?c)) @ finished_views ok ?c now"
  proof (cases "filename j")
    case PyNone
    then show ?thesis using a exc
      by (intro exI [of _ 0] exI [of _ False]) (simp add: worker_trace_def Let_def)
  next
    case (PyNum x)
    then show ?thesis using a exc
      by (intro exI [of _ 0] exI [of _ False]) (simp add: worker_trace_def Let_def)
  next
    case (PyStr fname)
    show ?thesis
    proof (cases "mkdir_raises out")
      case (Some msg)
      then show ?thesis using a exc PyStr
        by (intro exI [of _ 0] exI [of _ False]) (simp add: worker_trace_def Let_def)
    next
      case None
      show ?thesis
      proof (cases "format_id j")
        case PyNone
        then show ?thesis using a exc PyStr None
          by (intro exI [of _ 0] exI [of _ False]) (simp add: worker_trace_def Let_def)
      next
        case (PyNum x)
        then show ?thesis using a exc PyStr None
          by (intro exI [of _ 0] exI [of _ False]) (simp add: worker_trace_def Let_def)
      next
        case fmt: (PyStr fmt)
        obtain evs outcome where
          e: "run_engine out fmt (url j) (safe_filename lib fname ts) = (evs, outcome)"
          by (cases "run_engine out fmt (url j) (safe_filename lib fname ts)")
        show ?thesis
          using a PyStr None fmt e eng [of evs outcome]
          by (simp add: worker_trace_def Let_def del: last.simps)
      qed
    qed
  qed
  then obtain n ok where "map (\<lambda>s. sc_view s i) (tl (worker_trace lib out m i ts now))
           = replicate n (Some (Downloading, ?c)) @ finished_views ok ?c now"
    by blast
  then have "map (\<lambda>s. sc_view s i) (worker_trace lib out m i ts now)
      = replicate (Suc n) (Some (Downloading, ?c)) @ finished_views ok ?c now"
    using tr m1(3) by (metis (no_types, lifting) list.simps(9) replicate_Suc append_Cons)
  then show ?thesis by blast
qed

lemma worker_terminal_downloads:
  "s \<in> set (worker_success a files now m) \<Longrightarrow> downloads s = downloads m"
  "s \<in> set (worker_except a msg now m) \<Longrightarrow> downloads s = downloads m"
  by (auto simp: worker_success_def worker_except_def Let_def split: list.splits)

lemma engine_part_downloads:
  assumes "s \<in> set (run_hooks lib m1 i evs @
             (case outcome of
                Returned files \<Rightarrow> worker_success a files now (last (m1 # run_hooks lib m1 i evs))
              | Raised msg \<Rightarrow> worker_except a msg now (last (m1 # run_hooks lib m1 i evs))))"
  shows "downloads s = downloads m1"
proof -
  have h: "downloads (last (m1 # run_hooks lib m1 i evs)) = downloads m1"
    using run_hooks_last_frame by blast
  from assms consider "s \<in> set (run_hooks lib m1 i evs)"
    | files where "s \<in> set (worker_success a files now (last (m1 # run_hooks lib m1 i evs)))"
    | msg where "s \<in> set (worker_except a msg now (last (m1 # run_hooks lib m1 i evs)))"
    by (cases outcome) auto
  then show ?thesis
  proof cases
    case 1
    then show ?thesis using run_hooks_frame by blast
  next
    case 2
    then show ?thesis using worker_terminal_downloads(1) h by metis
  next
    case 3
    then show ?thesis using worker_terminal_downloads(2) h by metis
  qed
qed

lemma worker_trace_downloads:
  assumes "s \<in> set (worker_trace lib out m i ts now)"
  shows "downloads s = downloads m"
proof (cases "read_job m i")
  case None
  then show ?thesis using assms
    by (simp add: worker_trace_def read_job_def split: option.splits)
next
  case (Some j)
  then obtain a where a: "downloads m i = Some a" "deref m a = Some j"
    by (auto simp: read_job_def split: option.splits)
  let ?m1 = "upd_job a (\<lambda>j. j\<lparr>status := Downloading\<rparr>) m"
  have exc: "\<And>msg. s \<in> set (?m1 # worker_except a msg now ?m1) \<Longrightarrow> downloads s = downloads m"
    using worker_terminal_downloads(2) [of s a _ now ?m1] by auto
  show ?thesis
  proof (cases "filename j")
    case PyNone
    then show ?thesis using a exc assms by (simp add: worker_trace_def Let_def)
  next
    case (PyNum x)
    then show ?thesis using a exc assms by (simp add: worker_trace_def Let_def)
  next
    case (PyStr fname)
    show ?thesis
    proof (cases "mkdir_raises out")
      case (Some msg)
      then show ?thesis using a exc PyStr assms by (simp add: worker_trace_def Let_def)
    next
      case None
      show ?thesis
      proof (cases "format_id j")
        case PyNone
        then show ?thesis using a exc PyStr None assms by (simp add: worker_trace_def Let_def)
      next
        case (PyNum x)
        then show ?thesis using a exc PyStr None assms by (simp add: worker_trace_def Let_def)
      next
        case fmt: (PyStr fmt)
        obtain evs outcome where
          e: "run_engine out fmt (url j) (safe_filename lib fname ts) = (evs, outcome)"
          by (cases "run_engine out fmt (url j) (safe_filename lib fname ts)")
        from assms have "s = ?m1 \<or> s \<in> set (run_hooks lib ?m1 i evs @
             (case outcome of
                Returned files \<Rightarrow> worker_success a files now (last (?m1 # run_hooks lib ?m1 i evs))
              | Raised msg \<Rightarrow> worker_except a msg now (last (?m1 # run_hooks lib ?m1 i evs))))"
          using a PyStr None fmt e by (simp add: worker_trace_def Let_def del: last.simps)
        then show ?thesis
          using engine_part_downloads [where s = s and ?m1.0 = ?m1 and i = i and evs = evs
              and outcome = outcome and a = a and now = now] by auto
      qed
    qed
  qed
qed

lemma successively_replicate_Cons:
  assumes "R y y" and "successively R (y # zs)"
  shows "successively R (replicate n y @ y # zs)"
proof (induction n)
  case 0
  then show ?case using assms(2) by simp
next
  case (Suc n)
  have "hd (replicate n y @ y # zs) = y" by (cases n) simp_all
  then show ?case using Suc assms(1) by (simp add: successively_Cons)
qed

lemma views_successively:
  assumes "R x y" and "R y y" and "successively R (y # zs)"
  shows "successively R (x # replicate (Suc n) y @ zs)"
proof -
  have "replicate (Suc n) y @ zs = replicate n y @ y # zs"
    by (simp add: replicate_app_Cons_same)
  moreover have "hd (replicate n y @ y # zs) = y" by (cases n) simp_all
  ultimately show ?thesis
    using assms successively_replicate_Cons [OF assms(2,3), of n]
    by (simp add: successively_Cons del: replicate_Suc)
qed

section \<open>Properties of \<open>start_download\<close>\<close>

lemma start_download_Inr:
  assumes "start_download lib m u fmt fname t now = Inr (i, m')"
  shows "make_id lib u fmt t = Some i"
    and "read_job m' i = Some (new_job i u fmt fname now)"
    and "length (objs m') = Suc (length (objs m))"
    and "submitted m' = submitted m @ [i]"
    and "take (length (objs m)) (objs m') = objs m"
  using assms
  by (auto simp: start_download_def Let_def read_job_def deref_def split: option.splits)

lemma start_download_Inl:
  "start_download lib m u fmt fname t now = Inl e \<longleftrightarrow>
     make_id lib u fmt t = None \<and> e = UnicodeEncodeError"
  by (auto simp: start_download_def Let_def split: option.splits)

lemma start_download_Some:
  "make_id lib u fmt t = Some i \<Longrightarrow>
   \<exists>m'. start_download lib m u fmt fname t now = Inr (i, m')"
  by (simp add: start_download_def Let_def)

text \<open>The two calls of the examples: one id, and the registry keeps the second record.\<close>

lemma start_download_example:
  "start_download lib0 m_empty (PyStr ''http://x/v'') (PyStr ''best'') (PyStr ''clip'') 0
     ''2026-01-01T10:00:00'' = Inr (''http://x'', m_queued)"
  "start_download lib0 m_queued (PyStr ''http://x/v'') (PyStr ''best'') (PyStr ''clip2'') 0
     ''2026-01-01T10:00:00'' = Inr (''http://x'', m_twice)"
  by (simp_all add: start_download_def make_id_def lib0_def m_empty_def m_queued_def m_twice_def
      job_queued_def job_queued2_def Let_def)

text \<open>
  C7. The id is a function of the url, the format and the clock reading alone: two calls
  with the same url and format whose \<open>time.time()\<close> readings are equal return the same
  id, whatever their file names; the second call replaces the record of the first in the
  registry, and two tasks are queued for the one id. (Where the text of the id does not
  encode, both calls raise.)
\<close>

theorem same_clock_same_id:
  "(case start_download lib m u fmt n1 t now1 of
      Inl e \<Rightarrow> start_download lib m' u fmt n2 t now2 = Inl e
    | Inr (i1, m1) \<Rightarrow>
        (case start_download lib m1 u fmt n2 t now2 of
           Inl e \<Rightarrow> False
         | Inr (i2, m2) \<Rightarrow>
             i2 = i1
             \<and> read_job m1 i1 = Some (new_job i1 u fmt n1 now1)
             \<and> read_job m2 i1 = Some (new_job i1 u fmt n2 now2)
             \<and> submitted m2 = submitted m @ [i1, i1]))"
  by (simp add: start_download_def Let_def read_job_def deref_def split: option.splits)

section \<open>Properties of the request handler for downloads\<close>

text \<open>
  C5, as amended. A POST to \<open>/api/download\<close> whose body is a JSON object with
  \<open>url\<close> or \<open>format_id\<close> missing, \<open>None\<close> or empty is answered 400, and the manager
  is as it was: no record, no task, no id. A body that is no JSON object, or no JSON, or
  has no usable length, is answered 500, and the manager is as it was. When \<open>url\<close> and
  \<open>format_id\<close> are both given, the file name is not looked at: where the text of the
  id encodes, the answer is 200 with the new id, the registry holds the new record under
  it, with the file name of the body (\<open>'download'\<close> when the key is missing), and one
  task is queued; where it does not encode, \<open>start_download\<close> raises before it writes
  anything, and the answer is 500.
\<close>

theorem handle_download_validation:
  "(case body of
      JsonObject data \<Rightarrow>
        (if \<not> truthy (dict_get data ''url'') \<or> \<not> truthy (dict_get data ''format_id'')
         then handle_download lib m body t now
                = ((400, ErrorJson ''URL and format_id are required''), m)
         else
           (case make_id lib (dict_get data ''url'') (dict_get data ''format_id'') t of
              None \<Rightarrow>
                handle_download lib m body t now
                  = ((500, ErrorJson (''Download failed: '' @ exc_str lib UnicodeEncodeError)), m)
            | Some i \<Rightarrow>
                (\<exists>m'. handle_download lib m body t now = ((200, StartedJson i), m')
                   \<and> read_job m' i
                       = Some (new_job i (dict_get data ''url'') (dict_get data ''format_id'')
                                 (dict_get_default data ''filename'' (PyStr ''download'')) now)
                   \<and> length (objs m') = Suc (length (objs m))
                   \<and> take (length (objs m)) (objs m') = objs m
                   \<and> submitted m' = submitted m @ [i])))
    | _ \<Rightarrow> fst (fst (handle_download lib m body t now)) = 500
           \<and> snd (handle_download lib m body t now) = m)"
proof (cases body)
  case (JsonObject data)
  show ?thesis
  proof (cases "\<not> truthy (dict_get data ''url'') \<or> \<not> truthy (dict_get data ''format_id'')")
    case True
    then show ?thesis using JsonObject by (auto simp: handle_download_def Let_def)
  next
    case False
    show ?thesis
    proof (cases "make_id lib (dict_get data ''url'') (dict_get data ''format_id'') t")
      case None
      then show ?thesis using JsonObject False
        by (simp add: handle_download_def Let_def start_download_def)
    next
      case (Some i)
      then show ?thesis using JsonObject False
        by (simp add: handle_download_def Let_def start_download_def read_job_def deref_def)
    qed
  qed
qed (simp_all add: handle_download_def)

text \<open>
  Four bodies: an empty url, an empty file name, a url that does not encode, and a JSON
  list.
\<close>

theorem handle_download_validation_witness:
  "\<not> truthy (dict_get body_no_url ''url'')
   \<and> handle_download lib0 m_empty (JsonObject body_no_url) 0 ''2026-01-01T10:00:00''
       = ((400, ErrorJson ''URL and format_id are required''), m_empty)
   \<and> truthy (dict_get body_no_name ''url'') \<and> truthy (dict_get body_no_name ''format_id'')
   \<and> make_id lib0 (dict_get body_no_name ''url'') (dict_get body_no_name ''format_id'') 0
       = Some ''http://x''
   \<and> fst (handle_download lib0 m_empty (JsonObject body_no_name) 0 ''2026-01-01T10:00:00'')
       = (200, StartedJson ''http://x'')
   \<and> truthy (dict_get body_surrogate ''url'') \<and> truthy (dict_get body_surrogate ''format_id'')
   \<and> make_id lib0 (dict_get body_surrogate ''url'') (dict_get body_surrogate ''format_id'') 0
       = None
   \<and> handle_download lib0 m_empty (JsonObject body_surrogate) 0 ''2026-01-01T10:00:00''
       = ((500, ErrorJson ''Download failed: error''), m_empty)
   \<and> handle_download lib0 m_empty JsonOther 0 ''2026-01-01T10:00:00''
       = ((500, ErrorJson ''Download failed: error''), m_empty)"
proof -
  have u: "\<not> truthy (dict_get body_no_url ''url'')"
    by (simp add: body_no_url_def dict_get_def)
  have n: "truthy (dict_get body_no_name ''url'')" "truthy (dict_get body_no_name ''format_id'')"
    "make_id lib0 (dict_get body_no_name ''url'') (dict_get body_no_name ''format_id'') 0
       = Some ''http://x''"
    by (simp_all add: body_no_name_def dict_get_def make_id_def lib0_def)
  have g: "truthy (dict_get body_surrogate ''url'')"
    "truthy (dict_get body_surrogate ''format_id'')"
    "make_id lib0 (dict_get body_surrogate ''url'') (dict_get body_surrogate ''format_id'') 0
       = None"
    by (simp_all add: body_surrogate_def dict_get_def make_id_def lib0_def)
  have e: "exc_str lib0 UnicodeEncodeError = ''error''"
    by (simp add: lib0_def)
  have o: "handle_download lib0 m_empty JsonOther 0 ''2026-01-01T10:00:00''
       = ((500, ErrorJson ''Download failed: error''), m_empty)"
    by (simp add: handle_download_def lib0_def)
  from handle_download_validation [where body = "JsonObject body_no_url" and lib = lib0
      and m = m_empty and t = 0 and now = "''2026-01-01T10:00:00''"]
  have a: "handle_download lib0 m_empty (JsonObject body_no_url) 0 ''2026-01-01T10:00:00''
       = ((400, ErrorJson ''URL and format_id are required''), m_empty)"
    using u by simp
  from handle_download_validation [where body = "JsonObject body_no_name" and lib = lib0
      and m = m_empty and t = 0 and now = "''2026-01-01T10:00:00''"]
  have b: "fst (handle_download lib0 m_empty (JsonObject body_no_name) 0 ''2026-01-01T10:00:00'')
       = (200, StartedJson ''http://x'')"
    using n by auto
  from handle_download_validation [where body = "JsonObject body_surrogate" and lib = lib0
      and m = m_empty and t = 0 and now = "''2026-01-01T10:00:00''"]
  have c: "handle_download lib0 m_empty (JsonObject body_surrogate) 0 ''2026-01-01T10:00:00''
       = ((500, ErrorJson ''Download failed: error''), m_empty)"
    using g e by simp
  show ?thesis using u n g a b c o by simp
qed

text \<open>
  C5 as stated fails: a body whose \<open>filename\<close> is empty is answered 200 with an id,
  the registry gains the record, and the task is queued.
\<close>

theorem empty_filename_accepted:
  "dict_get body_no_name ''filename'' = PyStr []
   \<and> fst (handle_download lib0 m_empty (JsonObject body_no_name) 0 ''2026-01-01T10:00:00'')
       = (200, StartedJson ''http://x'')
   \<and> map_option filename
        (read_job
           (snd (handle_download lib0 m_empty (JsonObject body_no_name) 0
                   ''2026-01-01T10:00:00''))
           ''http://x'') = Some (PyStr [])
   \<and> submitted
        (snd (handle_download lib0 m_empty (JsonObject body_no_name) 0 ''2026-01-01T10:00:00''))
       = [''http://x'']
   \<and> read_job m_empty ''http://x'' = None"
  by (simp add: handle_download_def body_no_name_def dict_get_def dict_get_default_def
      start_download_def make_id_def lib0_def m_empty_def read_job_def deref_def new_job_def
      Let_def)

section \<open>Properties of \<open>get_download\<close>, continued\<close>

text \<open>
  C4, as amended. \<open>get_download\<close> returns the reference the registry holds, not a
  copy: the caller reads the record of the registry through it, an assignment the caller
  makes through it changes the record of the registry, and after a later call of the hook
  and in every state of a later run of the worker the object shows what the registry
  holds then.
\<close>

theorem get_download_returns_reference:
  assumes "read_job m i = Some j"
  shows "caller_view m (get_download m i) = Some j
       \<and> read_job (caller_mutate (get_download m i) f m) i = Some (f j)
       \<and> caller_view (hook_state lib m i d) (get_download m i) = read_job (hook_state lib m i d) i
       \<and> (\<forall>s \<in> set (worker_trace lib out m i ts now).
            caller_view s (get_download m i) = read_job s i)"
proof -
  from assms obtain a where a: "downloads m i = Some a" "deref m a = Some j"
    by (auto simp: read_job_def split: option.splits)
  have g: "get_download m i = JobRef a"
    using a by (simp add: get_download_def)
  have v: "\<And>s. downloads s = downloads m \<Longrightarrow> caller_view s (JobRef a) = read_job s i"
    using a by (simp add: read_job_def)
  have "caller_view (hook_state lib m i d) (JobRef a) = read_job (hook_state lib m i d) i"
    using hook_state_frame [of lib m i d] by (intro v) simp
  moreover have "\<forall>s \<in> set (worker_trace lib out m i ts now).
            caller_view s (JobRef a) = read_job s i"
    using worker_trace_downloads v by blast
  ultimately show ?thesis
    using a g by (simp add: read_job_upd_job)
qed

text \<open>The manager with one job; the caller sets the progress to 0.\<close>

theorem get_download_returns_reference_witness:
  "read_job m_one ''a1b2c3d4'' = Some job88
   \<and> caller_view m_one (get_download m_one ''a1b2c3d4'') = Some job88
   \<and> read_job (caller_mutate (get_download m_one ''a1b2c3d4'') (\<lambda>j. j\<lparr>progress := 0\<rparr>) m_one)
        ''a1b2c3d4'' = Some (job88\<lparr>progress := 0\<rparr>)"
  using get_download_returns_reference [OF read_job_m_one, of "\<lambda>j. j\<lparr>progress := 0\<rparr>"]
    read_job_m_one by simp

text \<open>
  C4 as stated fails: the caller's assignment changes the record the registry holds, and
  the object returned before the event, which showed the progress 88, shows 50 after it.
\<close>

theorem returned_record_is_shared:
  "read_job (caller_mutate (get_download m_one ''a1b2c3d4'') (\<lambda>j. j\<lparr>progress := 0\<rparr>) m_one)
      ''a1b2c3d4'' \<noteq> read_job m_one ''a1b2c3d4''
   \<and> map_option progress (caller_view m_one (get_download m_one ''a1b2c3d4'')) = Some 88
   \<and> map_option progress
        (caller_view (hook_state lib0 m_one ''a1b2c3d4'' ev_half) (get_download m_one ''a1b2c3d4''))
       = Some 50"
  by (simp add: get_download_def hook_eval ev_half_def)

section \<open>The life of a job\<close>

text \<open>
  A record that is queued when the worker starts on it, as \<open>start_download\<close> leaves
  it: along the run of the worker, whatever the engine reports and however it ends, the
  status a poll shows only stays or moves from \<open>queued\<close> to \<open>downloading\<close> and from
  \<open>downloading\<close> to \<open>completed\<close> or \<open>error\<close>; and no call of the hook, for any
  id and any event, changes the status of any record.
\<close>

lemma status_moves_forward:
  assumes "read_job m i = Some j" and "status j = Queued"
  shows "successively (rel_option status_fwd)
           (map (\<lambda>s. map_option status (read_job s i)) (m # worker_trace lib out m i ts now))
         \<and> map status (objs (hook_state lib' m' i' d)) = map status (objs m')"
proof -
  obtain n ok where v: "map (\<lambda>s. sc_view s i) (worker_trace lib out m i ts now)
           = replicate (Suc n) (Some (Downloading, completed_at j))
             @ finished_views ok (completed_at j) now"
    using worker_trace_views [OF assms(1)] by blast
  have st: "\<And>s. map_option status (read_job s i) = map_option fst (sc_view s i)"
    by (simp add: sc_view_def option.map_comp comp_def)
  have "map (\<lambda>s. map_option status (read_job s i)) (worker_trace lib out m i ts now)
      = map (map_option fst) (map (\<lambda>s. sc_view s i) (worker_trace lib out m i ts now))"
    by (simp add: st)
  also have "\<dots> = replicate (Suc n) (Some Downloading)
      @ (if ok then [Some Completed, Some Completed, Some Completed]
         else [Some Error, Some Error, Some Error])"
    by (simp add: v finished_views_def)
  finally have tr: "map (\<lambda>s. map_option status (read_job s i)) (worker_trace lib out m i ts now)
      = replicate (Suc n) (Some Downloading)
      @ (if ok then [Some Completed, Some Completed, Some Completed]
         else [Some Error, Some Error, Some Error])" .
  have "successively (rel_option status_fwd)
          (Some Queued # replicate (Suc n) (Some Downloading)
            @ (if ok then [Some Completed, Some Completed, Some Completed]
               else [Some Error, Some Error, Some Error]))"
    by (rule views_successively) (simp_all add: status_fwd_def)
  then have "successively (rel_option status_fwd)
           (map (\<lambda>s. map_option status (read_job s i)) (m # worker_trace lib out m i ts now))"
    using tr assms by simp
  then show ?thesis using hook_state_frame [of lib' m' i' d] by simp
qed

text \<open>The last state of a run shows a final status, the first one \<open>downloading\<close>.\<close>

lemma worker_trace_last_view:
  assumes "read_job m i = Some j"
  shows "sc_view (last (worker_trace lib out m i ts now)) i = Some (Completed, Some now)
       \<or> sc_view (last (worker_trace lib out m i ts now)) i = Some (Error, Some now)"
proof -
  obtain n ok where v: "map (\<lambda>s. sc_view s i) (worker_trace lib out m i ts now)
           = replicate (Suc n) (Some (Downloading, completed_at j))
             @ finished_views ok (completed_at j) now"
    using worker_trace_views [OF assms] by blast
  have ne: "worker_trace lib out m i ts now \<noteq> []"
    using v by auto
  have "sc_view (last (worker_trace lib out m i ts now)) i
      = last (map (\<lambda>s. sc_view s i) (worker_trace lib out m i ts now))"
    using ne by (simp add: last_map)
  also have "\<dots> = last (finished_views ok (completed_at j) now)"
    unfolding v by (simp add: finished_views_def del: replicate_Suc)
  finally show ?thesis
    by (simp add: finished_views_def split: if_splits)
qed

lemma worker_trace_hd_view:
  assumes "read_job m i = Some j"
  shows "sc_view (hd (worker_trace lib out m i ts now)) i = Some (Downloading, completed_at j)"
proof -
  obtain n ok where v: "map (\<lambda>s. sc_view s i) (worker_trace lib out m i ts now)
           = replicate (Suc n) (Some (Downloading, completed_at j))
             @ finished_views ok (completed_at j) now"
    using worker_trace_views [OF assms] by blast
  have ne: "worker_trace lib out m i ts now \<noteq> []"
    using v by auto
  have "sc_view (hd (worker_trace lib out m i ts now)) i
      = hd (map (\<lambda>s. sc_view s i) (worker_trace lib out m i ts now))"
    using ne by (simp add: hd_map)
  then show ?thesis unfolding v by simp
qed





text \<open>
  C2. Two calls of \<open>start_download\<close> with the same url, format and clock reading
  return one id, and both queued workers read the one record the registry then holds
  (line 138). When they run one after the other, the first run takes the record from
  \<open>queued\<close> to \<open>completed\<close> or \<open>error\<close>, and the first assignment of the second
  run (line 141) sets it back to \<open>downloading\<close>. (Where the text of the id does not
  encode, both calls raise.)
\<close>

theorem shared_id_status_regress:
  "(case start_download lib m u fmt n1 t now1 of
      Inl e \<Rightarrow> start_download lib m' u fmt n2 t now2 = Inl e
    | Inr (i, m1) \<Rightarrow>
        (case start_download lib m1 u fmt n2 t now2 of
           Inl e \<Rightarrow> False
         | Inr (i2, m2) \<Rightarrow>
             i2 = i
             \<and> submitted m2 = submitted m @ [i, i]
             \<and> map_option status (read_job m2 i) = Some Queued
             \<and> (map_option status (read_job (last (worker_trace lib out1 m2 i ts1 e1)) i)
                  = Some Completed
                \<or> map_option status (read_job (last (worker_trace lib out1 m2 i ts1 e1)) i)
                  = Some Error)
             \<and> map_option status
                 (read_job (hd (worker_trace lib out2 (last (worker_trace lib out1 m2 i ts1 e1))
                                  i ts2 e2)) i)
                = Some Downloading))"
proof (cases "make_id lib u fmt t")
  case None
  then show ?thesis by (simp add: start_download_def)
next
  case (Some i)
  obtain m1 where s1: "start_download lib m u fmt n1 t now1 = Inr (i, m1)"
    using start_download_Some [OF Some] by blast
  obtain m2 where s2: "start_download lib m1 u fmt n2 t now2 = Inr (i, m2)"
    using start_download_Some [OF Some] by blast
  have r: "read_job m2 i = Some (new_job i u fmt n2 now2)"
    using start_download_Inr(2) [OF s2] .
  have sub: "submitted m2 = submitted m @ [i, i]"
    using start_download_Inr(4) [OF s1] start_download_Inr(4) [OF s2] by simp
  let ?tr1 = "worker_trace lib out1 m2 i ts1 e1"
  have st: "\<And>s. map_option status (read_job s i) = map_option fst (sc_view s i)"
    by (simp add: sc_view_def option.map_comp comp_def)
  from worker_trace_last_view [OF r, of lib out1 ts1 e1]
  have l: "map_option status (read_job (last ?tr1) i) = Some Completed
        \<or> map_option status (read_job (last ?tr1) i) = Some Error"
    unfolding st by auto
  then obtain j' where j': "read_job (last ?tr1) i = Some j'"
    by auto
  from worker_trace_hd_view [OF j', of lib out2 ts2 e2]
  have h: "map_option status (read_job (hd (worker_trace lib out2 (last ?tr1) i ts2 e2)) i)
      = Some Downloading"
    unfolding st by simp
  have q: "map_option status (read_job m2 i) = Some Queued"
    using r by (simp add: new_job_def)
  show ?thesis
    using s1 s2 sub q l h by simp
qed





section \<open>Properties of the singleton\<close>






end
